theory Spec2Isabelle
  imports Main "HOL-Library.Word"
begin

unbundle bit_operations_syntax

section \<open>Python values used by \<open>backend/ocr_pipeline.py\<close>\<close>

text \<open>
  A Python \<open>str\<close> is a sequence of Unicode code points, so it is modelled as a list of
  natural numbers; \<open>py\<close> turns an ASCII literal of the source into such a sequence.
  A \<open>bytes\<close> object is a list of 8-bit words.
\<close>

type_synonym pystr = "nat list"
type_synonym byte = "8 word"

definition py :: "string \<Rightarrow> pystr" where
  "py s = map of_char s"

text \<open>
  \<open>str.strip()\<close> without argument removes leading and trailing whitespace, where
  whitespace is what \<open>str.isspace\<close> accepts: the code points below.
\<close>

definition isspace :: "nat \<Rightarrow> bool" where
  "isspace c \<longleftrightarrow>
     (9 \<le> c \<and> c \<le> 13) \<or> (28 \<le> c \<and> c \<le> 32) \<or> c = 133 \<or> c = 160 \<or> c = 5760 \<or>
     (8192 \<le> c \<and> c \<le> 8202) \<or> c = 8232 \<or> c = 8233 \<or> c = 8239 \<or> c = 8287 \<or> c = 12288"

definition strip :: "pystr \<Rightarrow> pystr" where
  "strip s = rev (dropWhile isspace (rev (dropWhile isspace s)))"

text \<open>
  The values \<open>json.loads\<close> returns: \<open>None\<close>, \<open>bool\<close>, \<open>int\<close>, \<open>float\<close>, \<open>str\<close>,
  \<open>list\<close> and \<open>dict\<close>. A \<open>dict\<close> is an association list in insertion order, with distinct
  keys when it comes from the decoder. A \<open>float\<close> is finite (sign, mantissa and binary
  exponent), an infinity (with its sign) or NaN; the decoder also produces the last two,
  from the words \<open>Infinity\<close>, \<open>-Infinity\<close> and \<open>NaN\<close>.
\<close>

datatype pyfloat = Finite bool nat int | Inf bool | NaN

datatype pyval =
    PNone
  | PBool bool
  | PInt int
  | PFloat pyfloat
  | PStr pystr
  | PList "pyval list"
  | PDict "(pystr \<times> pyval) list"

text \<open>\<open>isinstance(v, list)\<close> and \<open>isinstance(v, dict)\<close>.\<close>

fun is_list :: "pyval \<Rightarrow> bool" where
  "is_list (PList _) = True"
| "is_list _ = False"

fun is_dict :: "pyval \<Rightarrow> bool" where
  "is_dict (PDict _) = True"
| "is_dict _ = False"

text \<open>\<open>d.get(k, default)\<close>.\<close>

definition dict_get :: "(pystr \<times> pyval) list \<Rightarrow> pystr \<Rightarrow> pyval \<Rightarrow> pyval" where
  "dict_get d k dflt = (case map_of d k of None \<Rightarrow> dflt | Some v \<Rightarrow> v)"

text \<open>
  \<open>str(v)\<close> is \<open>v\<close> itself for a \<open>str\<close> and \<open>repr(v)\<close> for every other value here.
  \<open>repr\<close> writes \<open>None\<close>, \<open>True\<close> and \<open>False\<close> by name, an \<open>int\<close> as its decimal
  numeral, a \<open>list\<close> as its elements' \<open>repr\<close> between brackets and a \<open>dict\<close> as
  \<open>key: value\<close> pairs between braces, both separated by a comma and a space.
\<close>

fun digits :: "nat \<Rightarrow> pystr" where
  "digits n = (if n < 10 then [48 + n] else digits (n div 10) @ [48 + n mod 10])"

declare digits.simps [simp del]

definition str_int :: "int \<Rightarrow> pystr" where
  "str_int i = (if i < 0 then 45 # digits (nat (- i)) else digits (nat i))"

text \<open>\<open>sep.join(xs)\<close>.\<close>

fun join :: "pystr \<Rightarrow> pystr list \<Rightarrow> pystr" where
  "join sep [] = []"
| "join sep [x] = x"
| "join sep (x # y # ys) = x @ sep @ join sep (y # ys)"

text \<open>
  The \<open>repr\<close> of a \<open>str\<close> of ASCII characters: between single quotes, or between
  double quotes when it holds a single quote and no double quote; the delimiter and the
  backslash are escaped with a backslash, tab, newline and carriage return are written
  \<open>\t\<close>, \<open>\n\<close>, \<open>\r\<close>, and every other control character \<open>\xhh\<close> in lower-case
  hexadecimal.
\<close>

definition hex_digit :: "nat \<Rightarrow> nat" where
  "hex_digit n = (if n < 10 then 48 + n else 87 + n)"

definition escape :: "nat \<Rightarrow> nat \<Rightarrow> pystr" where
  "escape quote c =
     (if c = quote \<or> c = 92 then [92, c]
      else if c = 9 then [92, 116]
      else if c = 10 then [92, 110]
      else if c = 13 then [92, 114]
      else if c < 32 \<or> c = 127 then [92, 120, hex_digit (c div 16), hex_digit (c mod 16)]
      else [c])"

definition ascii_repr :: "pystr \<Rightarrow> pystr" where
  "ascii_repr s =
     (let quote = (if 39 \<in> set s \<and> 34 \<notin> set s then 34 else 39)
      in quote # concat (map (escape quote) s) @ [quote])"

text \<open>
  Two cases of \<open>repr\<close> are not computed here and are asked from the parameter \<open>rp\<close>:
  a \<open>str\<close> with a code point beyond ASCII (what is escaped there depends on the Unicode
  database) and a finite \<open>float\<close> (its shortest decimal numeral).
\<close>

definition str_repr :: "(pyval \<Rightarrow> pystr) \<Rightarrow> pystr \<Rightarrow> pystr" where
  "str_repr rp s = (if list_all (\<lambda>c. c < 128) s then ascii_repr s else rp (PStr s))"

definition float_repr :: "(pyval \<Rightarrow> pystr) \<Rightarrow> pyfloat \<Rightarrow> pystr" where
  "float_repr rp f =
     (case f of
        NaN \<Rightarrow> py ''nan''
      | Inf neg \<Rightarrow> (if neg then py ''-inf'' else py ''inf'')
      | Finite _ _ _ \<Rightarrow> rp (PFloat f))"

fun py_repr :: "(pyval \<Rightarrow> pystr) \<Rightarrow> pyval \<Rightarrow> pystr" where
  "py_repr rp PNone = py ''None''"
| "py_repr rp (PBool b) = (if b then py ''True'' else py ''False'')"
| "py_repr rp (PInt i) = str_int i"
| "py_repr rp (PFloat f) = float_repr rp f"
| "py_repr rp (PStr s) = str_repr rp s"
| "py_repr rp (PList xs) = 91 # join (py '', '') (map (py_repr rp) xs) @ [93]"
| "py_repr rp (PDict kvs) =
     123 # join (py '', '')
             (map (\<lambda>(k, v). str_repr rp k @ py '': '' @ py_repr rp v) kvs) @ [125]"

fun py_str :: "(pyval \<Rightarrow> pystr) \<Rightarrow> pyval \<Rightarrow> pystr" where
  "py_str rp (PStr s) = s"
| "py_str rp v = py_repr rp v"

section \<open>Errors, effects and the outside world\<close>

text \<open>
  The exceptions that can leave \<open>extract_qa_from_image\<close>: \<open>RuntimeError\<close> and
  \<open>ValueError\<close> raised by the module itself with their message, \<open>OSError\<close> from \<open>open\<close>,
  \<open>json.JSONDecodeError\<close> from \<open>json.loads\<close>, \<open>UnicodeEncodeError\<close> from \<open>print\<close>, and
  whatever else the decoder, the client library or the standard output raises.
\<close>

datatype error =
    RuntimeError pystr
  | ValueError pystr
  | JSONDecodeError
  | UnicodeEncodeError
  | OSError
  | OtherError pystr

text \<open>The arguments of \<open>client.responses.create\<close>.\<close>

record request =
  model :: pystr
  role :: pystr
  input_text :: pystr
  input_image :: pystr
  max_output_tokens :: nat

text \<open>
  What the function does to its surroundings, in order: opening a file for reading,
  sending a request with the client's key, printing a line.
\<close>

datatype event =
    OpenRead pystr
  | Request pystr request
  | Print pystr

text \<open>
  The surroundings of one call: the process environment, the file system, the answer
  of the model service to a request, the exception that \<open>print\<close> raises for a text, if
  any (a standard output that cannot encode the text raises \<open>UnicodeEncodeError\<close> and
  writes nothing of it), and the two library functions whose code is not part of the
  module: \<open>json.loads\<close>, and \<open>repr\<close> where \<open>py_repr\<close> asks for it.
\<close>

record world =
  environ :: "pystr \<rightharpoonup> pystr"
  files :: "pystr \<rightharpoonup> byte list"
  responses_create :: "request \<Rightarrow> error + pystr"
  print_raises :: "pystr \<Rightarrow> error option"
  loads :: "pystr \<Rightarrow> error + pyval"
  repr :: "pyval \<Rightarrow> pystr"

section \<open>The module\<close>

definition VISION_MODEL :: pystr where
  "VISION_MODEL = py ''gpt-4.1-mini''"

text \<open>
  \<open>_client\<close>: the key is looked up in the environment; a missing or empty key raises.
  The client object is represented by the key it holds.
\<close>

definition client :: "world \<Rightarrow> error + pystr" where
  "client w =
     (case environ w (py ''OPENAI_API_KEY'') of
        None \<Rightarrow> Inl (RuntimeError (py ''OPENAI_API_KEY not set''))
      | Some api_key \<Rightarrow>
          if api_key = [] then Inl (RuntimeError (py ''OPENAI_API_KEY not set''))
          else Inr api_key)"

subsection \<open>Base64\<close>

text \<open>
  \<open>base64.b64encode\<close> and \<open>base64.b64decode\<close> belong to the standard library; they are
  modelled after RFC 4648, section 4: three bytes become four characters of the
  alphabet, and a last group of one or two bytes is padded with \<open>=\<close>.
\<close>

definition b64_alphabet :: string where
  "b64_alphabet = ''ABCDEFGHIJKLMNOPQRSTUVWXYZabcdefghijklmnopqrstuvwxyz0123456789+/''"

definition b64_char :: "byte \<Rightarrow> byte" where
  "b64_char s = of_char (b64_alphabet ! unat s)"

text \<open>
  The four 6-bit values of a group of three bytes \<open>a\<close>, \<open>b\<close>, \<open>c\<close>, from the most
  significant bits of \<open>a\<close> to the least significant bits of \<open>c\<close>.
\<close>

definition sextet0 :: "byte \<Rightarrow> byte" where
  "sextet0 a = drop_bit 2 a"

definition sextet1 :: "byte \<Rightarrow> byte \<Rightarrow> byte" where
  "sextet1 a b = push_bit 4 (a AND 3) OR drop_bit 4 b"

definition sextet2 :: "byte \<Rightarrow> byte \<Rightarrow> byte" where
  "sextet2 b c = push_bit 2 (b AND 15) OR drop_bit 6 c"

definition sextet3 :: "byte \<Rightarrow> byte" where
  "sextet3 c = c AND 63"

text \<open>A short last group is filled with zero bits and padded with \<open>=\<close> (code 61).\<close>

fun b64encode :: "byte list \<Rightarrow> byte list" where
  "b64encode (a # b # c # rest) =
     [b64_char (sextet0 a), b64_char (sextet1 a b),
      b64_char (sextet2 b c), b64_char (sextet3 c)] @ b64encode rest"
| "b64encode [a, b] =
     [b64_char (sextet0 a), b64_char (sextet1 a b), b64_char (sextet2 b 0), 61]"
| "b64encode [a] =
     [b64_char (sextet0 a), b64_char (sextet1 a 0), 61, 61]"
| "b64encode [] = []"

text \<open>
  \<open>bytes.decode("utf-8")\<close> on bytes below 128, which are all that \<open>b64encode\<close> emits:
  every byte is its own code point.
\<close>

definition decode_utf8 :: "byte list \<Rightarrow> pystr" where
  "decode_utf8 bs = map unat bs"

text \<open>The value of a character of the alphabet.\<close>

definition b64_index :: "nat \<Rightarrow> byte option" where
  "b64_index c =
     (if 65 \<le> c \<and> c \<le> 90 then Some (of_nat (c - 65))
      else if 97 \<le> c \<and> c \<le> 122 then Some (of_nat (c - 71))
      else if 48 \<le> c \<and> c \<le> 57 then Some (of_nat (c + 4))
      else if c = 43 then Some 62
      else if c = 47 then Some 63
      else None)"

text \<open>
  Decoding reads groups of four characters; only the last group may end in one or two
  padding characters. Anything else is rejected.
\<close>

definition b64_group3 :: "nat \<Rightarrow> nat \<Rightarrow> nat \<Rightarrow> nat \<Rightarrow> byte list option" where
  "b64_group3 c0 c1 c2 c3 =
     (case (b64_index c0, b64_index c1, b64_index c2, b64_index c3) of
        (Some s0, Some s1, Some s2, Some s3) \<Rightarrow>
          Some [push_bit 2 s0 OR drop_bit 4 s1,
                push_bit 4 s1 OR drop_bit 2 s2,
                push_bit 6 s2 OR s3]
      | _ \<Rightarrow> None)"

definition b64_group2 :: "nat \<Rightarrow> nat \<Rightarrow> nat \<Rightarrow> byte list option" where
  "b64_group2 c0 c1 c2 =
     (case (b64_index c0, b64_index c1, b64_index c2) of
        (Some s0, Some s1, Some s2) \<Rightarrow>
          Some [push_bit 2 s0 OR drop_bit 4 s1, push_bit 4 s1 OR drop_bit 2 s2]
      | _ \<Rightarrow> None)"

definition b64_group1 :: "nat \<Rightarrow> nat \<Rightarrow> byte list option" where
  "b64_group1 c0 c1 =
     (case (b64_index c0, b64_index c1) of
        (Some s0, Some s1) \<Rightarrow> Some [push_bit 2 s0 OR drop_bit 4 s1]
      | _ \<Rightarrow> None)"

fun b64decode :: "pystr \<Rightarrow> byte list option" where
  "b64decode [] = Some []"
| "b64decode [c0, c1, c2, c3] =
     (if c2 = 61 \<and> c3 = 61 then b64_group1 c0 c1
      else if c3 = 61 then b64_group2 c0 c1 c2
      else b64_group3 c0 c1 c2 c3)"
| "b64decode (c0 # c1 # c2 # c3 # rest) =
     (case b64_group3 c0 c1 c2 c3 of
        None \<Rightarrow> None
      | Some bs \<Rightarrow> (case b64decode rest of None \<Rightarrow> None | Some bs' \<Rightarrow> Some (bs @ bs')))"
| "b64decode _ = None"

subsection \<open>The image encoder\<close>

text \<open>
  \<open>_image_to_data_url\<close>: the file is opened and read whole; a path that cannot be
  read raises from \<open>open\<close>.
\<close>

definition image_to_data_url :: "world \<Rightarrow> pystr \<Rightarrow> (error + pystr) \<times> event list" where
  "image_to_data_url w path =
     (case files w path of
        None \<Rightarrow> (Inl OSError, [OpenRead path])
      | Some b \<Rightarrow>
          (let b64 = decode_utf8 (b64encode b)
           in (Inr (py ''data:image/jpeg;base64,'' @ b64), [OpenRead path])))"

subsection \<open>The instruction text\<close>

definition prompt_lines :: "pystr list" where
  \<open>prompt_lines =
    [py ''I have a Year 5'' @ [8211] @ py ''8 maths worksheet in the image.'',
     [],
     py ''The page has:'',
     py ''- numbered questions'',
     py ''- handwritten student answers on the same page'',
     [],
     py ''I want a clean JSON list of question/answer pairs.'',
     [],
     py ''For each numbered question, extract:'',
     py ''- question_number: like "1", "2(a)" etc'',
     py ''- question_text: full question as normal text'',
     py ''- student_answer: student's final answer (even if wrong)'',
     py ''- student_working: any visible working/steps'',
     [],
     py ''Rules:'',
     py ''- Ignore headings, name fields, teacher notes.'',
     py ''- If answer is unreadable -> student_answer = "UNREADABLE"'',
     py ''- If there is clearly no answer -> student_answer = "BLANK"'',
     [],
     py ''Output:'',
     py ''Return ONLY a JSON array, like:'',
     [],
     py ''['',
     py ''  {'',
     py ''    "question_number": "1",'',
     py ''    "question_text": "...",'',
     py ''    "student_answer": "...",'',
     py ''    "student_working": "..."'',
     py ''  }'',
     py '']'']\<close>

definition prompt :: pystr where
  "prompt = strip (10 # concat (map (\<lambda>l. l @ [10]) prompt_lines))"

subsection \<open>Parsing and cleaning the model's answer\<close>

text \<open>One cleaned field: \<open>str(item.get(k, "")).strip()\<close>.\<close>

definition field :: "(pyval \<Rightarrow> pystr) \<Rightarrow> (pystr \<times> pyval) list \<Rightarrow> pystr \<Rightarrow> pystr" where
  "field rp item k = strip (py_str rp (dict_get item k (PStr [])))"

text \<open>
  The \<open>for\<close> loop over \<open>data\<close>, with the list \<open>cleaned\<close> as accumulator. An output
  record is a \<open>dict\<close> of strings, written as the association list of its literal.
\<close>

type_synonym qarecord = "(pystr \<times> pystr) list"

fun clean_loop :: "(pyval \<Rightarrow> pystr) \<Rightarrow> pyval list \<Rightarrow> qarecord list \<Rightarrow> qarecord list" where
  "clean_loop rp [] cleaned = cleaned"
| "clean_loop rp (PDict item # rest) cleaned =
     (let qn = field rp item (py ''question_number'');
          qtext = field rp item (py ''question_text'');
          sans = field rp item (py ''student_answer'');
          work = field rp item (py ''student_working'')
      in if qn = [] \<and> qtext = [] then clean_loop rp rest cleaned
         else clean_loop rp rest
                (cleaned @
                 [[(py ''question_number'', qn),
                   (py ''question_text'', qtext),
                   (py ''student_answer'', sans),
                   (py ''student_working'', work)]]))"
| "clean_loop rp (_ # rest) cleaned = clean_loop rp rest cleaned"

text \<open>
  The part of \<open>extract_qa_from_image\<close> after the request: trimming the answer's text,
  decoding it, checking that it is a list, and cleaning the elements. In the handler
  of \<open>JSONDecodeError\<close> an exception of either \<open>print\<close> leaves the function in place of
  the decoder's; any other exception of the decoder passes the handler by.
\<close>

definition parse_output :: "world \<Rightarrow> pystr \<Rightarrow> (error + qarecord list) \<times> event list" where
  "parse_output w output_text =
     (let raw = strip output_text
      in case loads w raw of
           Inl e \<Rightarrow>
             if e = JSONDecodeError
             then
               (let notice = py ''Vision model JSON parse failed. Raw output below:'' @ [10]
                in case print_raises w notice of
                     Some e' \<Rightarrow> (Inl e', [])
                   | None \<Rightarrow>
                       (case print_raises w raw of
                          Some e' \<Rightarrow> (Inl e', [Print notice])
                        | None \<Rightarrow> (Inl e, [Print notice, Print raw])))
             else (Inl e, [])
         | Inr data \<Rightarrow>
             (case data of
                PList items \<Rightarrow> (Inr (clean_loop (repr w) items []), [])
              | _ \<Rightarrow> (Inl (ValueError (py ''Expected a JSON array from vision model'')), [])))"

definition extract_qa_from_image :: "world \<Rightarrow> pystr \<Rightarrow> (error + qarecord list) \<times> event list" where
  "extract_qa_from_image w image_path =
     (case client w of
        Inl e \<Rightarrow> (Inl e, [])
      | Inr key \<Rightarrow>
          (case image_to_data_url w image_path of
             (Inl e, evs) \<Rightarrow> (Inl e, evs)
           | (Inr image_data_url, evs) \<Rightarrow>
               (let req = \<lparr>model = VISION_MODEL, role = py ''user'', input_text = prompt,
                           input_image = image_data_url, max_output_tokens = 800\<rparr>
                in case responses_create w req of
                     Inl e \<Rightarrow> (Inl e, evs @ [Request key req])
                   | Inr output_text \<Rightarrow>
                       (case parse_output w output_text of
                          (res, evs') \<Rightarrow> (res, evs @ [Request key req] @ evs')))))"

section \<open>Notions used to state the properties\<close>

text \<open>The four keys of an output record, in the order of the \<open>dict\<close> literal.\<close>

definition field_names :: "pystr list" where
  "field_names =
     [py ''question_number'', py ''question_text'', py ''student_answer'', py ''student_working'']"

text \<open>A trimmed string has no whitespace at either end.\<close>

definition trimmed :: "pystr \<Rightarrow> bool" where
  "trimmed s \<longleftrightarrow> s = [] \<or> (\<not> isspace (hd s) \<and> \<not> isspace (last s))"

text \<open>The record the loop appends for an object that it keeps.\<close>

definition record_of :: "(pyval \<Rightarrow> pystr) \<Rightarrow> (pystr \<times> pyval) list \<Rightarrow> qarecord" where
  "record_of rp item =
     [(py ''question_number'', field rp item (py ''question_number'')),
      (py ''question_text'', field rp item (py ''question_text'')),
      (py ''student_answer'', field rp item (py ''student_answer'')),
      (py ''student_working'', field rp item (py ''student_working''))]"

text \<open>What one element of the array adds to the result: one record or nothing.\<close>

fun clean_item :: "(pyval \<Rightarrow> pystr) \<Rightarrow> pyval \<Rightarrow> qarecord list" where
  "clean_item rp (PDict item) =
     (if field rp item (py ''question_number'') = [] \<and> field rp item (py ''question_text'') = []
      then [] else [record_of rp item])"
| "clean_item rp _ = []"

text \<open>
  A well-formed record object, after the data model of the specification: an object
  that gives all four fields as strings, not both of \<open>question_number\<close> and
  \<open>question_text\<close> being empty after trimming. \<open>expected_record\<close> is the record the
  specification promises for it: the four fields, each trimmed.
\<close>

fun the_str :: "pyval \<Rightarrow> pystr option" where
  "the_str (PStr s) = Some s"
| "the_str _ = None"

definition str_field :: "(pystr \<times> pyval) list \<Rightarrow> pystr \<Rightarrow> pystr option" where
  "str_field d k = (case map_of d k of None \<Rightarrow> None | Some v \<Rightarrow> the_str v)"

fun well_formed_record :: "pyval \<Rightarrow> bool" where
  "well_formed_record (PDict d) =
     (case (str_field d (py ''question_number''), str_field d (py ''question_text''),
            str_field d (py ''student_answer''), str_field d (py ''student_working'')) of
        (Some qn, Some qtext, Some sans, Some work) \<Rightarrow> strip qn \<noteq> [] \<or> strip qtext \<noteq> []
      | _ \<Rightarrow> False)"
| "well_formed_record _ = False"

fun expected_record :: "pyval \<Rightarrow> qarecord" where
  "expected_record (PDict d) =
     map (\<lambda>k. (k, strip (case str_field d k of None \<Rightarrow> [] | Some s \<Rightarrow> s))) field_names"
| "expected_record _ = []"

text \<open>Values that are a \<open>str\<close>, and values that are a \<open>float\<close>.\<close>

fun is_str :: "pyval \<Rightarrow> bool" where
  "is_str (PStr _) = True"
| "is_str _ = False"

fun is_float :: "pyval \<Rightarrow> bool" where
  "is_float (PFloat _) = True"
| "is_float _ = False"

text \<open>
  Reading a decimal numeral: digits without a leading zero (the numeral \<open>0\<close> apart),
  after a minus sign for a negative number (never \<open>-0\<close>). Every integer has exactly one
  such numeral.
\<close>

definition is_digit :: "nat \<Rightarrow> bool" where
  "is_digit c \<longleftrightarrow> 48 \<le> c \<and> c \<le> 57"

definition numeral_value :: "pystr \<Rightarrow> nat" where
  "numeral_value ds = foldl (\<lambda>acc c. 10 * acc + (c - 48)) 0 ds"

definition canonical :: "pystr \<Rightarrow> bool" where
  "canonical ds \<longleftrightarrow> ds \<noteq> [] \<and> list_all is_digit ds \<and> (hd ds = 48 \<longrightarrow> ds = [48])"

definition decimal_value :: "pystr \<Rightarrow> int option" where
  "decimal_value s =
     (case s of
        [] \<Rightarrow> None
      | c # ds \<Rightarrow>
          if c = 45
          then (if canonical ds \<and> ds \<noteq> [48] then Some (- int (numeral_value ds)) else None)
          else if canonical s then Some (int (numeral_value s)) else None)"

subsection \<open>Syntactically valid JSON\<close>

text \<open>
  The grammar of RFC 8259 as a recogniser. Each function reads one phrase from the
  front of a text and returns the rest, or \<open>None\<close> when the text does not start with
  such a phrase. \<open>json_chars\<close> reads a string after its opening quote; \<open>json_value\<close>,
  \<open>json_elements\<close> (the rest of an array from an element on) and \<open>json_members\<close> (the
  rest of an object from a member on) call each other, with a counter that the length
  of the text bounds, since every call is made after reading a character.
\<close>

definition is_hex :: "nat \<Rightarrow> bool" where
  "is_hex c \<longleftrightarrow> is_digit c \<or> (65 \<le> c \<and> c \<le> 70) \<or> (97 \<le> c \<and> c \<le> 102)"

definition json_ws :: "nat \<Rightarrow> bool" where
  "json_ws c \<longleftrightarrow> c = 32 \<or> c = 9 \<or> c = 10 \<or> c = 13"

definition skip_ws :: "pystr \<Rightarrow> pystr" where
  "skip_ws s = dropWhile json_ws s"

fun json_chars :: "pystr \<Rightarrow> pystr option" where
  "json_chars [] = None"
| "json_chars (c # cs) =
     (if c = 34 then Some cs
      else if c = 92 then
        (case cs of
           [] \<Rightarrow> None
         | e # es \<Rightarrow>
             if e = 34 \<or> e = 92 \<or> e = 47 \<or> e = 98 \<or> e = 102 \<or> e = 110 \<or> e = 114 \<or> e = 116
             then json_chars es
             else if e = 117 \<and> length es \<ge> 4 \<and> list_all is_hex (take 4 es)
             then json_chars (drop 4 es)
             else None)
      else if c < 32 then None
      else json_chars cs)"

definition json_digits1 :: "pystr \<Rightarrow> pystr option" where
  "json_digits1 s =
     (case s of
        [] \<Rightarrow> None
      | c # r \<Rightarrow> if is_digit c then Some (dropWhile is_digit r) else None)"

definition json_int :: "pystr \<Rightarrow> pystr option" where
  "json_int s = (case s of [] \<Rightarrow> None | c # r \<Rightarrow> if c = 48 then Some r else json_digits1 s)"

definition json_frac :: "pystr \<Rightarrow> pystr option" where
  "json_frac s =
     (case s of [] \<Rightarrow> Some s | c # r \<Rightarrow> if c = 46 then json_digits1 r else Some s)"

definition json_exp :: "pystr \<Rightarrow> pystr option" where
  "json_exp s =
     (case s of
        [] \<Rightarrow> Some s
      | c # r \<Rightarrow>
          if c = 101 \<or> c = 69 then
            (case r of
               [] \<Rightarrow> None
             | g # r' \<Rightarrow> if g = 43 \<or> g = 45 then json_digits1 r' else json_digits1 r)
          else Some s)"

definition json_number :: "pystr \<Rightarrow> pystr option" where
  "json_number s =
     (case json_int (case s of [] \<Rightarrow> [] | c # r \<Rightarrow> if c = 45 then r else s) of
        None \<Rightarrow> None
      | Some r \<Rightarrow> (case json_frac r of None \<Rightarrow> None | Some r' \<Rightarrow> json_exp r'))"

definition json_literal :: "pystr \<Rightarrow> pystr option" where
  "json_literal s =
     (if take 4 s = py ''true'' then Some (drop 4 s)
      else if take 4 s = py ''null'' then Some (drop 4 s)
      else if take 5 s = py ''false'' then Some (drop 5 s)
      else None)"

fun json_value :: "nat \<Rightarrow> pystr \<Rightarrow> pystr option"
  and json_elements :: "nat \<Rightarrow> pystr \<Rightarrow> pystr option"
  and json_members :: "nat \<Rightarrow> pystr \<Rightarrow> pystr option" where
  "json_value 0 s = None"
| "json_value (Suc n) s =
     (case s of
        [] \<Rightarrow> None
      | c # r \<Rightarrow>
          if c = 123 then
            (case skip_ws r of
               [] \<Rightarrow> None
             | c' # r' \<Rightarrow> if c' = 125 then Some r' else json_members n (c' # r'))
          else if c = 91 then
            (case skip_ws r of
               [] \<Rightarrow> None
             | c' # r' \<Rightarrow> if c' = 93 then Some r' else json_elements n (c' # r'))
          else if c = 34 then json_chars r
          else if c = 45 \<or> is_digit c then json_number s
          else json_literal s)"
| "json_elements 0 s = None"
| "json_elements (Suc n) s =
     (case json_value n s of
        None \<Rightarrow> None
      | Some r \<Rightarrow>
          (case skip_ws r of
             [] \<Rightarrow> None
           | c # r' \<Rightarrow>
               if c = 44 then json_elements n (skip_ws r')
               else if c = 93 then Some r'
               else None))"
| "json_members 0 s = None"
| "json_members (Suc n) s =
     (case s of
        [] \<Rightarrow> None
      | q # r \<Rightarrow>
          if q = 34 then
            (case json_chars r of
               None \<Rightarrow> None
             | Some r1 \<Rightarrow>
                 (case skip_ws r1 of
                    [] \<Rightarrow> None
                  | c # r2 \<Rightarrow>
                      if c = 58 then
                        (case json_value n (skip_ws r2) of
                           None \<Rightarrow> None
                         | Some r3 \<Rightarrow>
                             (case skip_ws r3 of
                                [] \<Rightarrow> None
                              | c' # r4 \<Rightarrow>
                                  if c' = 44 then json_members n (skip_ws r4)
                                  else if c' = 125 then Some r4
                                  else None))
                      else None))
          else None)"

definition valid_json :: "pystr \<Rightarrow> bool" where
  "valid_json s =
     (case json_value (Suc (length s)) (skip_ws s) of
        None \<Rightarrow> False
      | Some r \<Rightarrow> skip_ws r = [])"

section \<open>Sample surroundings\<close>

text \<open>
  A decoder that knows the answers of \<open>json.loads\<close> on a few texts (the examples of the
  specification among them) and rejects every other text; a world with a key, a JPEG
  and a PNG file, a model service that answers every request with the same text, and a
  standard output that accepts every text. The samples hold no finite float and no
  text beyond ASCII inside a record, so \<open>repr\<close> is never asked. The second world differs
  in its standard output, which encodes ASCII only.
\<close>

definition sample_loads :: "pystr \<Rightarrow> error + pyval" where
  \<open>sample_loads s =
     (if s = py ''[{"question_number":"1","question_text":"2+2=?","student_answer":"4","student_working":""}]''
      then Inr (PList [PDict [(py ''question_number'', PStr (py ''1'')),
                              (py ''question_text'', PStr (py ''2+2=?'')),
                              (py ''student_answer'', PStr (py ''4'')),
                              (py ''student_working'', PStr [])]])
      else if s = py ''[{"question_number":"","question_text":"","student_answer":"x"}]''
      then Inr (PList [PDict [(py ''question_number'', PStr []),
                              (py ''question_text'', PStr []),
                              (py ''student_answer'', PStr (py ''x''))]])
      else if s = py ''[{"question_number":"2(a)","student_answer":""}]''
      then Inr (PList [PDict [(py ''question_number'', PStr (py ''2(a)'')),
                              (py ''student_answer'', PStr [])]])
      else if s = py ''[{"question_number": null, "question_text": null}]''
      then Inr (PList [PDict [(py ''question_number'', PNone),
                              (py ''question_text'', PNone)]])
      else if s = py ''["noise", {"question_number":"3","question_text":" 7 x 8 "}, 5]''
      then Inr (PList [PStr (py ''noise''),
                       PDict [(py ''question_number'', PStr (py ''3'')),
                              (py ''question_text'', PStr (py '' 7 x 8 ''))],
                       PInt 5])
      else if s = py ''[{"question_number":"3","question_text":" 7 x 8 "}]''
      then Inr (PList [PDict [(py ''question_number'', PStr (py ''3'')),
                              (py ''question_text'', PStr (py '' 7 x 8 ''))]])
      else if s = py ''[{"question_number": 7, "question_text": [1, "a"]}]''
      then Inr (PList [PDict [(py ''question_number'', PInt 7),
                              (py ''question_text'', PList [PInt 1, PStr (py ''a'')])]])
      else if s = py ''[NaN]''
      then Inr (PList [PFloat NaN])
      else if s = py ''{"a":1}''
      then Inr (PDict [(py ''a'', PInt 1)])
      else Inl JSONDecodeError)\<close>

definition sample_world :: world where
  \<open>sample_world =
     \<lparr>environ = [py ''OPENAI_API_KEY'' \<mapsto> py ''sk-sample''],
      files = [py ''worksheet1.jpg'' \<mapsto> [0xFF, 0xD8, 0xFF, 0xE0],
               py ''scan.png'' \<mapsto> [0x89, 0x50, 0x4E, 0x47]],
      responses_create =
        (\<lambda>req. Inr (py '' [{"question_number":"2(a)","student_answer":""}]'' @ [10])),
      print_raises = (\<lambda>s. None),
      loads = sample_loads,
      repr = (\<lambda>v. [])\<rparr>\<close>

definition ascii_stdout_world :: world where
  "ascii_stdout_world =
     sample_world
       \<lparr>print_raises :=
          (\<lambda>s. if list_all (\<lambda>c. c < 128) s then None else Some UnicodeEncodeError)\<rparr>"

section \<open>Properties of \<open>strip\<close>\<close>

lemma dropWhile_idem: "dropWhile P (dropWhile P xs) = dropWhile P xs"
  by (induction xs) auto

lemma strip_Nil: "strip [] = []"
  by (simp add: strip_def)

lemma strip_hd:
  assumes a: "strip s \<noteq> []"
  shows "\<not> isspace (hd (strip s))"
proof -
  define t where "t = dropWhile isspace s"
  have st: "strip s = rev (dropWhile isspace (rev t))" by (simp add: strip_def t_def)
  have tne: "t \<noteq> []" using a st by auto
  have h: "\<not> isspace (hd t)" using tne unfolding t_def by (rule hd_dropWhile)
  have "rev (rev t) = rev (takeWhile isspace (rev t) @ dropWhile isspace (rev t))"
    by (simp only: takeWhile_dropWhile_id)
  then have "t = strip s @ rev (takeWhile isspace (rev t))"
    by (simp only: rev_rev_ident rev_append st)
  then have "hd t = hd (strip s @ rev (takeWhile isspace (rev t)))" by simp
  also have "\<dots> = hd (strip s)" using a by (rule hd_append2)
  finally show ?thesis using h by simp
qed

lemma strip_last:
  assumes a: "strip s \<noteq> []"
  shows "\<not> isspace (last (strip s))"
proof -
  define u where "u = dropWhile isspace (rev (dropWhile isspace s))"
  have st: "strip s = rev u" by (simp add: strip_def u_def)
  have une: "u \<noteq> []" using a st by simp
  have "\<not> isspace (hd u)" using une unfolding u_def by (rule hd_dropWhile)
  moreover have "last (rev u) = hd u" using une by (simp add: last_rev)
  ultimately show ?thesis using st by simp
qed

lemma trimmed_strip: "trimmed (strip s)"
  using strip_hd [of s] strip_last [of s] by (auto simp: trimmed_def)

lemma trimmed_field: "trimmed (field rp item k)"
  unfolding field_def by (rule trimmed_strip)

lemma strip_idem: "strip (strip s) = strip s"
proof (cases "strip s = []")
  case True
  then have "strip (strip s) = strip []" by simp
  also have "\<dots> = []" by (rule strip_Nil)
  finally show ?thesis using True by simp
next
  case False
  then have "\<not> isspace (hd (strip s))" by (rule strip_hd)
  then have d: "dropWhile isspace (strip s) = strip s" using False by (cases "strip s") auto
  have "strip (strip s) = rev (dropWhile isspace (rev (strip s)))"
    unfolding strip_def[of "strip s"] d ..
  also have "\<dots> = strip s" by (simp add: strip_def dropWhile_idem)
  finally show ?thesis .
qed

lemma strip_field: "strip (field rp item k) = field rp item k"
  unfolding field_def by (rule strip_idem)

lemma strip_eq_Nil_iff: "strip s = [] \<longleftrightarrow> (\<forall>c \<in> set s. isspace c)"
proof -
  have "strip s = [] \<longleftrightarrow> dropWhile isspace (rev (dropWhile isspace s)) = []"
    by (simp add: strip_def)
  also have "\<dots> \<longleftrightarrow> (\<forall>c \<in> set (dropWhile isspace s). isspace c)"
    by (simp add: dropWhile_eq_Nil_conv)
  also have "\<dots> \<longleftrightarrow> dropWhile isspace (dropWhile isspace s) = []"
    by (simp only: dropWhile_eq_Nil_conv)
  also have "\<dots> \<longleftrightarrow> (\<forall>c \<in> set s. isspace c)"
    by (simp only: dropWhile_idem dropWhile_eq_Nil_conv)
  finally show ?thesis .
qed

lemma strip_trimmed:
  assumes "trimmed s"
  shows "strip s = s"
proof (cases s rule: rev_cases)
  case Nil
  then show ?thesis by (simp add: strip_Nil)
next
  case (snoc xs x)
  then have ne: "s \<noteq> []" by simp
  with assms have h: "\<not> isspace (hd s)" and "\<not> isspace (last s)"
    by (simp_all add: trimmed_def)
  then have l: "\<not> isspace x" by (simp add: snoc)
  have a: "dropWhile isspace s = s" using ne h by (cases s) simp_all
  have b: "dropWhile isspace (rev s) = rev s" using l by (simp add: snoc)
  show ?thesis by (simp add: strip_def a b)
qed

section \<open>Decimal numerals\<close>

lemma digits_props:
  "digits n \<noteq> [] \<and> list_all is_digit (digits n) \<and> (hd (digits n) = 48 \<longrightarrow> n = 0) \<and>
   numeral_value (digits n) = n"
proof (induction n rule: digits.induct)
  case (1 n)
  show ?case
  proof (cases "n < 10")
    case True
    then show ?thesis by (simp add: digits.simps [of n] is_digit_def numeral_value_def)
  next
    case False
    with 1 have ih: "digits (n div 10) \<noteq> []" "list_all is_digit (digits (n div 10))"
      "hd (digits (n div 10)) = 48 \<longrightarrow> n div 10 = 0"
      "numeral_value (digits (n div 10)) = n div 10" by simp_all
    have d: "digits n = digits (n div 10) @ [48 + n mod 10]"
      using False by (simp add: digits.simps [of n])
    have nz: "n div 10 \<noteq> 0" using False by simp
    have "n mod 10 < 10" by simp
    then have ld: "is_digit (48 + n mod 10)" unfolding is_digit_def by arith
    have v: "numeral_value (digits n) = 10 * numeral_value (digits (n div 10)) + n mod 10"
      by (simp add: d numeral_value_def)
    have val: "numeral_value (digits n) = n" using v ih(4) by simp
    have ne: "digits n \<noteq> []" by (simp add: d)
    have ad: "list_all is_digit (digits n)" using ih(2) ld by (simp add: d)
    have "hd (digits n) = hd (digits (n div 10))" using ih(1) by (simp add: d)
    then have h: "hd (digits n) \<noteq> 48" using ih(3) nz by auto
    show ?thesis
      using ne ad h val by simp
  qed
qed

lemma digits_zero: "digits 0 = [48]"
  by (simp add: digits.simps)

lemma decimal_value_str_int: "decimal_value (str_int i) = Some i"
proof (cases "i < 0")
  case True
  let ?n = "nat (- i)"
  have n: "?n \<noteq> 0" using True by simp
  have "digits ?n \<noteq> [48]" using digits_props [of ?n] n by auto
  moreover have "canonical (digits ?n)"
    using digits_props [of ?n] n by (auto simp: canonical_def)
  ultimately show ?thesis
    using True digits_props [of ?n] by (simp add: decimal_value_def str_int_def)
next
  case False
  let ?n = "nat i"
  have c: "canonical (digits ?n)"
    using digits_props [of ?n] digits_zero by (auto simp: canonical_def)
  obtain c ds where cd: "digits ?n = c # ds"
    using digits_props [of ?n] by (cases "digits ?n") auto
  have "c \<noteq> 45" using digits_props [of ?n] cd by (auto simp: is_digit_def)
  then show ?thesis
    using False c digits_props [of ?n] cd by (simp add: decimal_value_def str_int_def)
qed

lemma digit_not_space: "is_digit c \<Longrightarrow> \<not> isspace c"
  by (auto simp: is_digit_def isspace_def)

lemma digits_trimmed: "trimmed (digits n)"
proof -
  have ne: "digits n \<noteq> []" and ad: "list_all is_digit (digits n)"
    using digits_props [of n] by simp_all
  have "hd (digits n) \<in> set (digits n)" "last (digits n) \<in> set (digits n)"
    using ne by simp_all
  with ad have "is_digit (hd (digits n))" "is_digit (last (digits n))"
    by (simp_all add: list_all_iff)
  then show ?thesis by (simp add: trimmed_def digit_not_space)
qed

lemma str_int_text: "str_int i \<noteq> [] \<and> trimmed (str_int i)"
proof (cases "i < 0")
  case True
  have ne: "digits (nat (- i)) \<noteq> []" using digits_props by simp
  have "\<not> isspace (last (digits (nat (- i))))"
    using digits_trimmed [of "nat (- i)"] ne by (simp add: trimmed_def)
  then show ?thesis using True ne by (simp add: str_int_def trimmed_def isspace_def)
next
  case False
  then show ?thesis using digits_props [of "nat i"] digits_trimmed [of "nat i"]
    by (simp add: str_int_def)
qed

section \<open>The text of a value that is not a string\<close>

lemma py_str_text:
  assumes "\<not> is_str v" and "\<not> is_float v"
  shows "py_str rp v \<noteq> [] \<and> trimmed (py_str rp v)"
proof (cases v)
  case PNone
  then show ?thesis by (simp add: py_def trimmed_def isspace_def)
next
  case (PBool b)
  then show ?thesis by (simp add: py_def trimmed_def isspace_def)
next
  case (PInt i)
  then show ?thesis using str_int_text [of i] by simp
next
  case (PList xs)
  then show ?thesis by (simp add: trimmed_def isspace_def)
next
  case (PDict kvs)
  then show ?thesis by (simp add: trimmed_def isspace_def)
qed (use assms in simp_all)

section \<open>The loop, element by element\<close>

lemma clean_loop_eq:
  "clean_loop rp items acc = acc @ concat (map (clean_item rp) items)"
  by (induction rp items acc rule: clean_loop.induct) (simp_all add: Let_def record_of_def)

lemma clean_item_record:
  assumes "r \<in> set (clean_item rp v)"
  shows "\<exists>d. v = PDict d \<and> r = record_of rp d \<and>
           (field rp d (py ''question_number'') \<noteq> [] \<or> field rp d (py ''question_text'') \<noteq> [])"
  using assms by (cases v) (auto split: if_splits)

lemma parse_output_list:
  assumes "loads w (strip output_text) = Inr (PList items)"
  shows "parse_output w output_text = (Inr (concat (map (clean_item (repr w)) items)), [])"
  using assms by (simp add: parse_output_def clean_loop_eq)

lemma parse_output_Inr:
  assumes "parse_output w output_text = (Inr recs, evs)"
  shows "\<exists>items. loads w (strip output_text) = Inr (PList items) \<and>
           recs = concat (map (clean_item (repr w)) items) \<and> evs = []"
  using assms
  by (auto simp: parse_output_def clean_loop_eq Let_def
      split: sum.splits pyval.splits if_splits option.splits)

lemma py_key_neq: "py ''question_number'' \<noteq> py ''question_text''"
  by (simp add: py_def)

lemma wf_clean_item:
  assumes "well_formed_record v"
  shows "clean_item rp v = [expected_record v]"
proof (cases v)
  case (PDict d)
  from assms obtain qn qtext sans work where
    f: "str_field d (py ''question_number'') = Some qn"
       "str_field d (py ''question_text'') = Some qtext"
       "str_field d (py ''student_answer'') = Some sans"
       "str_field d (py ''student_working'') = Some work"
    and ne: "strip qn \<noteq> [] \<or> strip qtext \<noteq> []"
    unfolding PDict by (auto split: option.splits)
  have g: "field rp d k = strip s" if "str_field d k = Some s" for k s
  proof -
    from that obtain v where "map_of d k = Some v" "the_str v = Some s"
      by (auto simp: str_field_def split: option.splits)
    then show ?thesis by (cases v) (simp_all add: field_def dict_get_def)
  qed
  show ?thesis
    using ne by (auto simp: PDict record_of_def field_names_def g [OF f(1)] g [OF f(2)] g [OF f(3)] g [OF f(4)] f)
qed (use assms in simp_all)

lemma expected_record_shape:
  assumes "well_formed_record v"
  shows "map fst (expected_record v) = field_names \<and> list_all trimmed (map snd (expected_record v))"
proof (cases v)
  case (PDict d)
  show ?thesis by (simp add: PDict list_all_iff comp_def trimmed_strip)
qed (use assms in simp_all)

section \<open>The response parser\<close>

lemmas eval_defs = sample_world_def sample_loads_def py_def strip_def isspace_def
  field_def dict_get_def record_of_def

lemmas repr_defs = py_def str_int_def digits.simps str_repr_def ascii_repr_def escape_def
  hex_digit_def float_repr_def

text \<open>
  C1: when the trimmed answer decodes to an array of well-formed record objects, the
  parser returns the expected record of each object, one per object and in the order
  of the array; every record has exactly the four keys, and every value is a trimmed
  string.
\<close>

theorem well_formed_array_one_record_each:
  assumes "loads w (strip output_text) = Inr (PList items)"
    and "list_all well_formed_record items"
  shows "\<exists>recs. parse_output w output_text = (Inr recs, []) \<and>
           recs = map expected_record items \<and>
           length recs = length items \<and>
           (\<forall>r \<in> set recs. map fst r = field_names \<and> list_all trimmed (map snd r))"
proof -
  have "concat (map (clean_item (repr w)) items) = map expected_record items"
    using assms(2) by (induction items) (simp_all add: wf_clean_item)
  then have "clean_loop (repr w) items [] = map expected_record items"
    by (simp add: clean_loop_eq)
  moreover have "\<forall>r \<in> set (map expected_record items).
      map fst r = field_names \<and> list_all trimmed (map snd r)"
    using assms(2) expected_record_shape by (auto simp: list_all_iff)
  ultimately show ?thesis
    using assms(1) by (simp add: parse_output_def)
qed

theorem well_formed_array_one_record_each_witness:
  \<open>loads sample_world (strip (py ''[{"question_number":"1","question_text":"2+2=?","student_answer":"4","student_working":""}]'' @ [10])) =
     Inr (PList [PDict [(py ''question_number'', PStr (py ''1'')),
                        (py ''question_text'', PStr (py ''2+2=?'')),
                        (py ''student_answer'', PStr (py ''4'')),
                        (py ''student_working'', PStr [])]]) \<and>
   list_all well_formed_record
     [PDict [(py ''question_number'', PStr (py ''1'')),
             (py ''question_text'', PStr (py ''2+2=?'')),
             (py ''student_answer'', PStr (py ''4'')),
             (py ''student_working'', PStr [])]] \<and>
   parse_output sample_world (py ''[{"question_number":"1","question_text":"2+2=?","student_answer":"4","student_working":""}]'' @ [10]) =
     (Inr [[(py ''question_number'', py ''1''),
            (py ''question_text'', py ''2+2=?''),
            (py ''student_answer'', py ''4''),
            (py ''student_working'', [])]], [])\<close>
proof -
  let ?t = \<open>py ''[{"question_number":"1","question_text":"2+2=?","student_answer":"4","student_working":""}]'' @ [10]\<close>
  let ?d = "PDict [(py ''question_number'', PStr (py ''1'')),
                        (py ''question_text'', PStr (py ''2+2=?'')),
                        (py ''student_answer'', PStr (py ''4'')),
                        (py ''student_working'', PStr [])]"
  have s: \<open>strip ?t = py ''[{"question_number":"1","question_text":"2+2=?","student_answer":"4","student_working":""}]''\<close>
    by (simp add: strip_def py_def isspace_def)
  have h1: "loads sample_world (strip ?t) = Inr (PList [?d])"
    unfolding s by (simp add: sample_world_def sample_loads_def)
  have h2: "list_all well_formed_record [?d]"
    by (simp add: str_field_def py_def strip_def isspace_def)
  have e: "expected_record ?d = [(py ''question_number'', py ''1''),
            (py ''question_text'', py ''2+2=?''),
            (py ''student_answer'', py ''4''),
            (py ''student_working'', [])]"
    by (simp add: field_names_def str_field_def py_def strip_def isspace_def)
  from well_formed_array_one_record_each [OF h1 h2]
  have "parse_output sample_world ?t = (Inr [expected_record ?d], [])" by simp
  then show ?thesis using h1 h2 unfolding e by simp
qed

text \<open>
  C2: an object whose \<open>question_number\<close> and \<open>question_text\<close> are both empty after
  trimming adds nothing to the result, whatever its other fields hold; and every
  record that the parser returns has a \<open>question_number\<close> or a \<open>question_text\<close> that
  is not empty after trimming.
\<close>

theorem blank_identifiers_dropped:
  "(loads w (strip output_text) = Inr (PList (xs @ PDict d # ys)) \<and>
      field (repr w) d (py ''question_number'') = [] \<and>
      field (repr w) d (py ''question_text'') = [] \<longrightarrow>
    parse_output w output_text =
      (Inr (clean_loop (repr w) xs [] @ clean_loop (repr w) ys []), [])) \<and>
   (parse_output w' output_text' = (Inr recs, evs) \<longrightarrow>
    (\<forall>r \<in> set recs. \<exists>qn qtext.
        map_of r (py ''question_number'') = Some qn \<and>
        map_of r (py ''question_text'') = Some qtext \<and>
        (strip qn \<noteq> [] \<or> strip qtext \<noteq> [])))"
proof (intro conjI impI ballI)
  assume "loads w (strip output_text) = Inr (PList (xs @ PDict d # ys)) \<and>
      field (repr w) d (py ''question_number'') = [] \<and>
      field (repr w) d (py ''question_text'') = []"
  then show "parse_output w output_text =
      (Inr (clean_loop (repr w) xs [] @ clean_loop (repr w) ys []), [])"
    by (simp add: parse_output_list clean_loop_eq)
next
  fix r
  assume p: "parse_output w' output_text' = (Inr recs, evs)" and r: "r \<in> set recs"
  from parse_output_Inr [OF p] obtain items where
    "recs = concat (map (clean_item (repr w')) items)" by blast
  with r obtain v where "r \<in> set (clean_item (repr w') v)" by auto
  from clean_item_record [OF this] obtain d' where
    d: "r = record_of (repr w') d'"
      "field (repr w') d' (py ''question_number'') \<noteq> [] \<or>
       field (repr w') d' (py ''question_text'') \<noteq> []"
    by blast
  have "map_of r (py ''question_number'') = Some (field (repr w') d' (py ''question_number''))"
    by (simp add: d(1) record_of_def)
  moreover
  have "map_of r (py ''question_text'') = Some (field (repr w') d' (py ''question_text''))"
    using py_key_neq by (simp add: d(1) record_of_def)
  ultimately show "\<exists>qn qtext.
        map_of r (py ''question_number'') = Some qn \<and>
        map_of r (py ''question_text'') = Some qtext \<and>
        (strip qn \<noteq> [] \<or> strip qtext \<noteq> [])"
    using d(2) by (simp add: strip_field)
qed

theorem blank_identifiers_dropped_witness:
  \<open>loads sample_world (strip (py ''[{"question_number":"","question_text":"","student_answer":"x"}]'')) =
     Inr (PList ([] @ PDict [(py ''question_number'', PStr []), (py ''question_text'', PStr []),
                             (py ''student_answer'', PStr (py ''x''))] # [])) \<and>
   parse_output sample_world (py ''[{"question_number":"","question_text":"","student_answer":"x"}]'') =
     (Inr [], []) \<and>
   parse_output sample_world (py ''[{"question_number":"2(a)","student_answer":""}]'') =
     (Inr [[(py ''question_number'', py ''2(a)''), (py ''question_text'', []),
            (py ''student_answer'', []), (py ''student_working'', [])]], []) \<and>
   (\<exists>qn qtext.
      map_of [(py ''question_number'', py ''2(a)''), (py ''question_text'', []),
              (py ''student_answer'', []), (py ''student_working'', [])]
        (py ''question_number'') = Some qn \<and>
      map_of [(py ''question_number'', py ''2(a)''), (py ''question_text'', []),
              (py ''student_answer'', []), (py ''student_working'', [])]
        (py ''question_text'') = Some qtext \<and>
      (strip qn \<noteq> [] \<or> strip qtext \<noteq> []))\<close>
proof -
  let ?t = \<open>py ''[{"question_number":"","question_text":"","student_answer":"x"}]''\<close>
  let ?d = "[(py ''question_number'', PStr []), (py ''question_text'', PStr []),
             (py ''student_answer'', PStr (py ''x''))]"
  let ?t' = \<open>py ''[{"question_number":"2(a)","student_answer":""}]''\<close>
  let ?r = "[(py ''question_number'', py ''2(a)''), (py ''question_text'', []),
            (py ''student_answer'', []), (py ''student_working'', [])]"
  have h1: "loads sample_world (strip ?t) = Inr (PList ([] @ PDict ?d # []))"
    by (simp add: eval_defs)
  have h2: "field (repr sample_world) ?d (py ''question_number'') = []"
    by (simp add: eval_defs)
  have h3: "field (repr sample_world) ?d (py ''question_text'') = []"
    by (simp add: eval_defs)
  have h4: "parse_output sample_world ?t' = (Inr [?r], [])"
    by (simp add: parse_output_def Let_def eval_defs)
  note inst = blank_identifiers_dropped [where w = sample_world and output_text = "?t"
      and xs = "[]" and d = "?d" and ys = "[]" and w' = sample_world and output_text' = "?t'"
      and recs = "[?r]" and evs = "[]"]
  from inst h1 h2 h3 have c1: "parse_output sample_world ?t = (Inr [], [])" by simp
  from inst h4 have "\<forall>r \<in> set [?r]. \<exists>qn qtext. map_of r (py ''question_number'') = Some qn \<and>
        map_of r (py ''question_text'') = Some qtext \<and>
        (strip qn \<noteq> [] \<or> strip qtext \<noteq> [])" by blast
  then have c2: "\<exists>qn qtext. map_of ?r (py ''question_number'') = Some qn \<and>
        map_of ?r (py ''question_text'') = Some qtext \<and>
        (strip qn \<noteq> [] \<or> strip qtext \<noteq> [])" by simp
  show ?thesis using h1 c1 h4 c2 by blast
qed

text \<open>
  C3, as amended: when \<open>json.loads\<close> rejects the trimmed answer with
  \<open>JSONDecodeError\<close>, the parser returns no records; and when the standard output
  accepts the notice and the trimmed text, it fails with that \<open>JSONDecodeError\<close>, having
  printed the notice and then the trimmed text.
\<close>

theorem decode_error_fails_after_printing:
  assumes "loads w (strip output_text) = Inl JSONDecodeError"
  shows "(\<exists>e. fst (parse_output w output_text) = Inl e) \<and>
         (print_raises w (py ''Vision model JSON parse failed. Raw output below:'' @ [10]) = None \<and>
          print_raises w (strip output_text) = None \<longrightarrow>
          parse_output w output_text =
            (Inl JSONDecodeError,
             [Print (py ''Vision model JSON parse failed. Raw output below:'' @ [10]),
              Print (strip output_text)]))"
  using assms by (simp add: parse_output_def Let_def split: option.splits)

theorem decode_error_fails_after_printing_witness:
  "loads sample_world (strip (py ''not json'')) = Inl JSONDecodeError \<and>
   print_raises sample_world (py ''Vision model JSON parse failed. Raw output below:'' @ [10]) =
     None \<and>
   print_raises sample_world (strip (py ''not json'')) = None \<and>
   parse_output sample_world (py ''not json'') =
     (Inl JSONDecodeError,
      [Print (py ''Vision model JSON parse failed. Raw output below:'' @ [10]),
       Print (py ''not json'')])"
proof -
  have s: "strip (py ''not json'') = py ''not json''" by (simp add: eval_defs)
  have h: "loads sample_world (strip (py ''not json'')) = Inl JSONDecodeError"
    by (simp add: eval_defs)
  have p1: "print_raises sample_world
      (py ''Vision model JSON parse failed. Raw output below:'' @ [10]) = None"
    by (simp add: sample_world_def)
  have p2: "print_raises sample_world (strip (py ''not json'')) = None"
    by (simp add: sample_world_def)
  from decode_error_fails_after_printing [OF h] p1 p2
  have "parse_output sample_world (py ''not json'') =
     (Inl JSONDecodeError,
      [Print (py ''Vision model JSON parse failed. Raw output below:'' @ [10]),
       Print (strip (py ''not json''))])" by blast
  then show ?thesis using h p1 p2 unfolding s by simp
qed

text \<open>
  The claim as first stated fails in two ways. The text \<open>caf\<close> followed by the code
  point 233 is not valid JSON and the decoder rejects it, but on a standard output
  that encodes ASCII only the second \<open>print\<close> raises: the parser fails with
  \<open>UnicodeEncodeError\<close> and the text is not printed. The text \<open>[NaN]\<close> is not valid JSON
  either, but \<open>json.loads\<close> reads it as a list of one float, and the parser returns the
  empty result.
\<close>

theorem invalid_json_counterexample:
  "\<not> valid_json (strip (py ''caf'' @ [233])) \<and>
   loads ascii_stdout_world (strip (py ''caf'' @ [233])) = Inl JSONDecodeError \<and>
   parse_output ascii_stdout_world (py ''caf'' @ [233]) =
     (Inl UnicodeEncodeError,
      [Print (py ''Vision model JSON parse failed. Raw output below:'' @ [10])]) \<and>
   \<not> valid_json (strip (py ''[NaN]'')) \<and>
   loads sample_world (strip (py ''[NaN]'')) = Inr (PList [PFloat NaN]) \<and>
   parse_output sample_world (py ''[NaN]'') = (Inr [], [])"
proof -
  have s1: "strip (py ''caf'' @ [233]) = py ''caf'' @ [233]"
    by (simp add: py_def strip_def isspace_def)
  have s2: "strip (py ''[NaN]'') = py ''[NaN]''"
    by (simp add: py_def strip_def isspace_def)
  have v1: "\<not> valid_json (py ''caf'' @ [233])"
    by (simp add: valid_json_def skip_ws_def json_ws_def py_def is_digit_def json_literal_def)
  have v2: "\<not> valid_json (py ''[NaN]'')"
    by (simp add: valid_json_def skip_ws_def json_ws_def py_def is_digit_def json_literal_def)
  have l1: "loads ascii_stdout_world (py ''caf'' @ [233]) = Inl JSONDecodeError"
    by (simp add: ascii_stdout_world_def sample_world_def sample_loads_def py_def)
  have l2: "loads sample_world (py ''[NaN]'') = Inr (PList [PFloat NaN])"
    by (simp add: sample_world_def sample_loads_def py_def)
  have q1: "print_raises ascii_stdout_world
      (py ''Vision model JSON parse failed. Raw output below:'' @ [10]) = None"
    by (simp add: ascii_stdout_world_def py_def)
  have q2: "print_raises ascii_stdout_world (py ''caf'' @ [233]) = Some UnicodeEncodeError"
    by (simp add: ascii_stdout_world_def py_def)
  have p1: "parse_output ascii_stdout_world (py ''caf'' @ [233]) =
     (Inl UnicodeEncodeError,
      [Print (py ''Vision model JSON parse failed. Raw output below:'' @ [10])])"
    unfolding parse_output_def Let_def s1 l1 q1 q2 by simp
  have p2: "parse_output sample_world (py ''[NaN]'') = (Inr [], [])"
    unfolding parse_output_def Let_def s2 l2 by simp
  show ?thesis unfolding s1 s2 using v1 v2 l1 l2 p1 p2 by simp
qed

text \<open>
  C4: when the trimmed answer decodes to a value that is not a list, the parser fails
  with the \<open>ValueError\<close> of the shape check, returns no records and prints nothing.
\<close>

theorem non_array_fails:
  assumes "loads w (strip output_text) = Inr v" and "\<not> is_list v"
  shows "parse_output w output_text =
           (Inl (ValueError (py ''Expected a JSON array from vision model'')), [])"
  using assms by (cases v) (simp_all add: parse_output_def)

theorem non_array_fails_witness:
  \<open>loads sample_world (strip (py ''{"a":1}'')) = Inr (PDict [(py ''a'', PInt 1)]) \<and>
   \<not> is_list (PDict [(py ''a'', PInt 1)]) \<and>
   parse_output sample_world (py ''{"a":1}'') =
     (Inl (ValueError (py ''Expected a JSON array from vision model'')), [])\<close>
proof -
  have h1: \<open>loads sample_world (strip (py ''{"a":1}'')) = Inr (PDict [(py ''a'', PInt 1)])\<close>
    by (simp add: eval_defs)
  have h2: "\<not> is_list (PDict [(py ''a'', PInt 1)])" by simp
  show ?thesis using h1 h2 non_array_fails [OF h1 h2] by simp
qed

text \<open>
  C5: a field that the object does not have becomes the empty string; an object with
  a non-empty \<open>question_number\<close> and an empty \<open>question_text\<close> is kept, and so is one
  with an empty \<open>question_number\<close> and a non-empty \<open>question_text\<close>; the answer
  \<open>[{"question_number":"2(a)","student_answer":""}]\<close> gives the single record with
  \<open>question_number\<close> \<open>2(a)\<close> and three empty fields.
\<close>

theorem absent_fields_default_empty:
  \<open>(map_of d k = None \<longrightarrow> field rp d k = []) \<and>
   (field rp d (py ''question_number'') \<noteq> [] \<and> field rp d (py ''question_text'') = [] \<longrightarrow>
      clean_loop rp [PDict d] [] =
        [[(py ''question_number'', field rp d (py ''question_number'')),
          (py ''question_text'', []),
          (py ''student_answer'', field rp d (py ''student_answer'')),
          (py ''student_working'', field rp d (py ''student_working''))]]) \<and>
   (field rp d' (py ''question_number'') = [] \<and> field rp d' (py ''question_text'') \<noteq> [] \<longrightarrow>
      clean_loop rp [PDict d'] [] =
        [[(py ''question_number'', []),
          (py ''question_text'', field rp d' (py ''question_text'')),
          (py ''student_answer'', field rp d' (py ''student_answer'')),
          (py ''student_working'', field rp d' (py ''student_working''))]]) \<and>
   (loads w (py ''[{"question_number":"2(a)","student_answer":""}]'') =
      Inr (PList [PDict [(py ''question_number'', PStr (py ''2(a)'')),
                         (py ''student_answer'', PStr [])]]) \<longrightarrow>
    parse_output w (py ''[{"question_number":"2(a)","student_answer":""}]'') =
      (Inr [[(py ''question_number'', py ''2(a)''), (py ''question_text'', []),
             (py ''student_answer'', []), (py ''student_working'', [])]], []))\<close>
proof (intro conjI impI)
  assume "map_of d k = None"
  then show "field rp d k = []" by (simp add: field_def dict_get_def strip_Nil)
next
  assume "field rp d (py ''question_number'') \<noteq> [] \<and> field rp d (py ''question_text'') = []"
  then show "clean_loop rp [PDict d] [] =
        [[(py ''question_number'', field rp d (py ''question_number'')),
          (py ''question_text'', []),
          (py ''student_answer'', field rp d (py ''student_answer'')),
          (py ''student_working'', field rp d (py ''student_working''))]]"
    by (simp add: Let_def)
next
  assume "field rp d' (py ''question_number'') = [] \<and> field rp d' (py ''question_text'') \<noteq> []"
  then show "clean_loop rp [PDict d'] [] =
        [[(py ''question_number'', []),
          (py ''question_text'', field rp d' (py ''question_text'')),
          (py ''student_answer'', field rp d' (py ''student_answer'')),
          (py ''student_working'', field rp d' (py ''student_working''))]]"
    by (simp add: Let_def)
next
  let ?t = \<open>py ''[{"question_number":"2(a)","student_answer":""}]''\<close>
  assume a: "loads w ?t =
      Inr (PList [PDict [(py ''question_number'', PStr (py ''2(a)'')),
                         (py ''student_answer'', PStr [])]])"
  have s: "strip ?t = ?t" by (simp add: py_def strip_def isspace_def)
  show "parse_output w ?t =
      (Inr [[(py ''question_number'', py ''2(a)''), (py ''question_text'', []),
             (py ''student_answer'', []), (py ''student_working'', [])]], [])"
    unfolding parse_output_def Let_def s a
    by (simp add: Let_def py_def strip_def isspace_def field_def dict_get_def)
qed

theorem absent_fields_default_empty_witness:
  \<open>map_of [(py ''question_number'', PStr (py ''2(a)'')), (py ''student_answer'', PStr [])]
      (py ''question_text'') = None \<and>
   field (repr sample_world)
      [(py ''question_number'', PStr (py ''2(a)'')), (py ''student_answer'', PStr [])]
      (py ''question_text'') = [] \<and>
   clean_loop (repr sample_world)
      [PDict [(py ''question_number'', PStr (py ''2(a)'')), (py ''student_answer'', PStr [])]] [] =
     [[(py ''question_number'', py ''2(a)''), (py ''question_text'', []),
       (py ''student_answer'', []), (py ''student_working'', [])]] \<and>
   clean_loop (repr sample_world) [PDict [(py ''question_text'', PStr (py ''3 + 4 = ?''))]] [] =
     [[(py ''question_number'', []), (py ''question_text'', py ''3 + 4 = ?''),
       (py ''student_answer'', []), (py ''student_working'', [])]] \<and>
   loads sample_world (py ''[{"question_number":"2(a)","student_answer":""}]'') =
     Inr (PList [PDict [(py ''question_number'', PStr (py ''2(a)'')),
                        (py ''student_answer'', PStr [])]]) \<and>
   parse_output sample_world (py ''[{"question_number":"2(a)","student_answer":""}]'') =
     (Inr [[(py ''question_number'', py ''2(a)''), (py ''question_text'', []),
            (py ''student_answer'', []), (py ''student_working'', [])]], [])\<close>
proof -
  let ?d = "[(py ''question_number'', PStr (py ''2(a)'')), (py ''student_answer'', PStr [])]"
  let ?d' = "[(py ''question_text'', PStr (py ''3 + 4 = ?''))]"
  let ?t = \<open>py ''[{"question_number":"2(a)","student_answer":""}]''\<close>
  let ?rp = "repr sample_world"
  have h1: "map_of ?d (py ''question_text'') = None" by (simp add: py_def)
  have f1: "field ?rp ?d (py ''question_number'') = py ''2(a)''" by (simp add: eval_defs)
  have f2: "field ?rp ?d (py ''question_text'') = []" by (simp add: eval_defs)
  have f3: "field ?rp ?d (py ''student_answer'') = []" by (simp add: eval_defs)
  have f4: "field ?rp ?d (py ''student_working'') = []" by (simp add: eval_defs)
  have g1: "field ?rp ?d' (py ''question_number'') = []" by (simp add: eval_defs)
  have g2: "field ?rp ?d' (py ''question_text'') = py ''3 + 4 = ?''" by (simp add: eval_defs)
  have g3: "field ?rp ?d' (py ''student_answer'') = []" by (simp add: eval_defs)
  have g4: "field ?rp ?d' (py ''student_working'') = []" by (simp add: eval_defs)
  have ne: "py ''2(a)'' \<noteq> []" "py ''3 + 4 = ?'' \<noteq> []" by (simp_all add: py_def)
  have h4: "loads sample_world ?t = Inr (PList [PDict ?d])" by (simp add: eval_defs)
  note inst = absent_fields_default_empty [where d = "?d" and k = "py ''question_text''"
      and rp = "?rp" and d' = "?d'" and w = sample_world]
  from inst h1 have c1: "field ?rp ?d (py ''question_text'') = []" by blast
  from inst f1 f2 ne have "clean_loop ?rp [PDict ?d] [] =
        [[(py ''question_number'', field ?rp ?d (py ''question_number'')),
          (py ''question_text'', []),
          (py ''student_answer'', field ?rp ?d (py ''student_answer'')),
          (py ''student_working'', field ?rp ?d (py ''student_working''))]]" by simp
  then have c2: "clean_loop ?rp [PDict ?d] [] =
     [[(py ''question_number'', py ''2(a)''), (py ''question_text'', []),
       (py ''student_answer'', []), (py ''student_working'', [])]]"
    unfolding f1 f3 f4 .
  from inst g1 g2 ne have "clean_loop ?rp [PDict ?d'] [] =
        [[(py ''question_number'', []),
          (py ''question_text'', field ?rp ?d' (py ''question_text'')),
          (py ''student_answer'', field ?rp ?d' (py ''student_answer'')),
          (py ''student_working'', field ?rp ?d' (py ''student_working''))]]" by simp
  then have c3: "clean_loop ?rp [PDict ?d'] [] =
     [[(py ''question_number'', []), (py ''question_text'', py ''3 + 4 = ?''),
       (py ''student_answer'', []), (py ''student_working'', [])]]"
    unfolding g2 g3 g4 .
  from inst h4 have c4: "parse_output sample_world ?t =
     (Inr [[(py ''question_number'', py ''2(a)''), (py ''question_text'', []),
            (py ''student_answer'', []), (py ''student_working'', [])]], [])" by blast
  show ?thesis using h1 c1 c2 c3 h4 c4 by blast
qed

text \<open>
  C6: an element of the array that is not a \<open>dict\<close> is skipped: the loop and the
  parser give the same result as without it, which is the records of the elements
  before it followed by the records of the elements after it.
\<close>

theorem non_objects_skipped:
  assumes "\<not> is_dict e"
  shows "clean_loop rp (xs @ e # ys) acc = clean_loop rp (xs @ ys) acc \<and>
         clean_loop rp (xs @ e # ys) [] = clean_loop rp xs [] @ clean_loop rp ys [] \<and>
         (loads w (strip output_text) = Inr (PList (xs @ e # ys)) \<longrightarrow>
          parse_output w output_text =
            (Inr (clean_loop (repr w) xs [] @ clean_loop (repr w) ys []), []))"
proof -
  have "clean_item rp' e = []" for rp'
    using assms by (cases e) simp_all
  then show ?thesis
    by (simp add: parse_output_list clean_loop_eq)
qed

theorem non_objects_skipped_witness:
  \<open>\<not> is_dict (PStr (py ''noise'')) \<and>
   loads sample_world (strip (py ''["noise", {"question_number":"3","question_text":" 7 x 8 "}, 5]'')) =
     Inr (PList ([] @ PStr (py ''noise'') #
                 [PDict [(py ''question_number'', PStr (py ''3'')),
                         (py ''question_text'', PStr (py '' 7 x 8 ''))], PInt 5])) \<and>
   parse_output sample_world (py ''["noise", {"question_number":"3","question_text":" 7 x 8 "}, 5]'') =
     (Inr [[(py ''question_number'', py ''3''), (py ''question_text'', py ''7 x 8''),
            (py ''student_answer'', []), (py ''student_working'', [])]], []) \<and>
   parse_output sample_world (py ''[{"question_number":"3","question_text":" 7 x 8 "}]'') =
     (Inr [[(py ''question_number'', py ''3''), (py ''question_text'', py ''7 x 8''),
            (py ''student_answer'', []), (py ''student_working'', [])]], [])\<close>
proof -
  let ?t = \<open>py ''["noise", {"question_number":"3","question_text":" 7 x 8 "}, 5]''\<close>
  let ?d = "PDict [(py ''question_number'', PStr (py ''3'')),
                   (py ''question_text'', PStr (py '' 7 x 8 ''))]"
  have h1: "\<not> is_dict (PStr (py ''noise''))" by simp
  have h2: "loads sample_world (strip ?t) = Inr (PList ([] @ PStr (py ''noise'') # [?d, PInt 5]))"
    by (simp add: eval_defs)
  have c: "clean_loop (repr sample_world) [?d, PInt 5] [] =
      [[(py ''question_number'', py ''3''), (py ''question_text'', py ''7 x 8''),
        (py ''student_answer'', []), (py ''student_working'', [])]]"
    by (simp add: Let_def eval_defs)
  have p: \<open>parse_output sample_world (py ''[{"question_number":"3","question_text":" 7 x 8 "}]'') =
     (Inr [[(py ''question_number'', py ''3''), (py ''question_text'', py ''7 x 8''),
            (py ''student_answer'', []), (py ''student_working'', [])]], [])\<close>
    by (simp add: parse_output_def Let_def eval_defs)
  from non_objects_skipped [OF h1, where w = sample_world and output_text = "?t"
      and xs = "[]" and ys = "[?d, PInt 5]"] h2
  have "parse_output sample_world ?t =
      (Inr (clean_loop (repr sample_world) [] [] @ clean_loop (repr sample_world) [?d, PInt 5] []), [])"
    by blast
  then have "parse_output sample_world ?t =
      (Inr [[(py ''question_number'', py ''3''), (py ''question_text'', py ''7 x 8''),
        (py ''student_answer'', []), (py ''student_working'', [])]], [])"
    unfolding c by simp
  then show ?thesis using h1 h2 p by blast
qed

text \<open>
  C7: a field whose value is not a string is turned into text by \<open>str\<close> and then
  trimmed. \<open>None\<close>, \<open>True\<close> and \<open>False\<close> give their names, an integer gives its decimal
  numeral, a list and a dict give their \<open>repr\<close> (with quoted and escaped strings inside),
  NaN and the infinities give \<open>nan\<close>, \<open>inf\<close> and \<open>-inf\<close>; for a finite float \<open>str\<close> is the
  \<open>repr\<close> supplied from outside. The text of a value that is neither a string nor a float is
  never empty and has no whitespace at its ends, so an object whose \<open>question_number\<close>
  or \<open>question_text\<close> is such a value is kept; the object with both \<open>null\<close> gives a
  record with \<open>question_number\<close> \<open>None\<close>.
\<close>

theorem non_string_fields_coerced:
  \<open>(map_of d k = Some v \<longrightarrow> field rp d k = strip (py_str rp v)) \<and>
   (map_of d k = Some PNone \<longrightarrow> field rp d k = py ''None'') \<and>
   py_str rp PNone = py ''None'' \<and>
   py_str rp (PBool True) = py ''True'' \<and>
   py_str rp (PBool False) = py ''False'' \<and>
   decimal_value (py_str rp (PInt i)) = Some i \<and>
   py_str rp (PInt 7) = py ''7'' \<and>
   py_str rp (PInt (- 120)) = py ''-120'' \<and>
   py_str rp (PFloat NaN) = py ''nan'' \<and>
   py_str rp (PFloat (Finite sg m e)) = rp (PFloat (Finite sg m e)) \<and>
   py_str rp (PList [PInt 1, PStr (py ''a''), PNone, PBool True]) = py ''[1, 'a', None, True]'' \<and>
   py_str rp (PDict [(py ''a'', PInt (- 12)), (py ''b'', PList [])]) = py ''{'a': -12, 'b': []}'' \<and>
   py_str rp (PList [PStr (py ''it's''), PStr [34, 92, 10, 31]]) =
     py ''["it's", '' @ [39, 34, 92, 92, 92, 110, 92] @ py ''x1f'' @ [39, 93] \<and>
   py_str rp (PFloat (Inf False)) = py ''inf'' \<and>
   py_str rp (PFloat (Inf True)) = py ''-inf'' \<and>
   (\<not> is_str u \<and> \<not> is_float u \<longrightarrow>
      py_str rp u \<noteq> [] \<and> strip (py_str rp u) = py_str rp u) \<and>
   ((map_of d' (py ''question_number'') = Some u' \<or>
     map_of d' (py ''question_text'') = Some u') \<and> \<not> is_str u' \<and> \<not> is_float u' \<longrightarrow>
      clean_loop rp [PDict d'] [] = [record_of rp d']) \<and>
   (loads w (strip output_text) =
      Inr (PList [PDict [(py ''question_number'', PNone), (py ''question_text'', PNone)]]) \<longrightarrow>
    parse_output w output_text =
      (Inr [[(py ''question_number'', py ''None''), (py ''question_text'', py ''None''),
             (py ''student_answer'', []), (py ''student_working'', [])]], []))\<close>
proof -
  have n: "strip (py ''None'') = py ''None''" by (simp add: py_def strip_def isspace_def)
  have f: "field rp' c k' = strip (py_str rp' v')" if "map_of c k' = Some v'" for rp' c k' v'
    using that by (simp add: field_def dict_get_def)
  have c1: "map_of d k = Some v \<longrightarrow> field rp d k = strip (py_str rp v)"
    using f by blast
  have c2: "map_of d k = Some PNone \<longrightarrow> field rp d k = py ''None''"
  proof
    assume "map_of d k = Some PNone"
    from f [OF this] show "field rp d k = py ''None''" by (simp add: n)
  qed
  have c3: "py_str rp PNone = py ''None''" by simp
  have c4: "py_str rp (PBool True) = py ''True''" by simp
  have c5: "py_str rp (PBool False) = py ''False''" by simp
  have c6: "decimal_value (py_str rp (PInt i)) = Some i"
    by (simp add: decimal_value_str_int)
  have c7: "py_str rp (PInt 7) = py ''7''"
    by (simp add: str_int_def digits.simps py_def)
  have c8: "py_str rp (PInt (- 120)) = py ''-120''"
    by (simp add: str_int_def digits.simps py_def)
  have c9: "py_str rp (PFloat NaN) = py ''nan''"
    by (simp add: float_repr_def)
  have c10: "py_str rp (PFloat (Finite sg m e)) = rp (PFloat (Finite sg m e))"
    by (simp add: float_repr_def)
  have c11: "py_str rp (PList [PInt 1, PStr (py ''a''), PNone, PBool True]) =
      py ''[1, 'a', None, True]''"
    by (simp add: repr_defs)
  have c12: "py_str rp (PDict [(py ''a'', PInt (- 12)), (py ''b'', PList [])]) =
      py ''{'a': -12, 'b': []}''"
    by (simp add: repr_defs)
  have c16: \<open>py_str rp (PList [PStr (py ''it's''), PStr [34, 92, 10, 31]]) =
     py ''["it's", '' @ [39, 34, 92, 92, 92, 110, 92] @ py ''x1f'' @ [39, 93]\<close>
    by (simp add: repr_defs)
  have c17: "py_str rp (PFloat (Inf False)) = py ''inf''"
    by (simp add: float_repr_def)
  have c18: "py_str rp (PFloat (Inf True)) = py ''-inf''"
    by (simp add: float_repr_def)
  have tx: "py_str rp x \<noteq> [] \<and> strip (py_str rp x) = py_str rp x"
    if "\<not> is_str x" "\<not> is_float x" for x
  proof -
    from py_str_text [OF that] have "py_str rp x \<noteq> []" and "trimmed (py_str rp x)"
      by simp_all
    then show ?thesis by (simp only: strip_trimmed simp_thms)
  qed
  have c13: "\<not> is_str u \<and> \<not> is_float u \<longrightarrow>
      py_str rp u \<noteq> [] \<and> strip (py_str rp u) = py_str rp u"
    using tx by blast
  have c14: "(map_of d' (py ''question_number'') = Some u' \<or>
     map_of d' (py ''question_text'') = Some u') \<and> \<not> is_str u' \<and> \<not> is_float u' \<longrightarrow>
      clean_loop rp [PDict d'] [] = [record_of rp d']"
  proof
    assume a: "(map_of d' (py ''question_number'') = Some u' \<or>
     map_of d' (py ''question_text'') = Some u') \<and> \<not> is_str u' \<and> \<not> is_float u'"
    then have t: "strip (py_str rp u') \<noteq> []" using tx [of u'] by simp
    from a consider
      (qn) "map_of d' (py ''question_number'') = Some u'" |
      (qtext) "map_of d' (py ''question_text'') = Some u'" by blast
    then have "\<not> (field rp d' (py ''question_number'') = [] \<and>
        field rp d' (py ''question_text'') = [])"
    proof cases
      case qn
      from f [OF qn] t show ?thesis by simp
    next
      case qtext
      from f [OF qtext] t show ?thesis by simp
    qed
    then show "clean_loop rp [PDict d'] [] = [record_of rp d']"
      by (simp add: clean_loop_eq)
  qed
  have c15: "loads w (strip output_text) =
      Inr (PList [PDict [(py ''question_number'', PNone), (py ''question_text'', PNone)]]) \<longrightarrow>
    parse_output w output_text =
      (Inr [[(py ''question_number'', py ''None''), (py ''question_text'', py ''None''),
             (py ''student_answer'', []), (py ''student_working'', [])]], [])"
  proof
    assume a: "loads w (strip output_text) =
      Inr (PList [PDict [(py ''question_number'', PNone), (py ''question_text'', PNone)]])"
    show "parse_output w output_text =
      (Inr [[(py ''question_number'', py ''None''), (py ''question_text'', py ''None''),
             (py ''student_answer'', []), (py ''student_working'', [])]], [])"
      unfolding parse_output_def Let_def a
      by (simp add: Let_def py_def strip_def isspace_def field_def dict_get_def)
  qed
  show ?thesis
    by (intro conjI) (fact c1 c2 c3 c4 c5 c6 c7 c8 c9 c10 c11 c12 c13 c14 c15 c16 c17 c18)+
qed

theorem non_string_fields_coerced_witness:
  \<open>map_of [(py ''question_number'', PNone), (py ''question_text'', PNone)]
      (py ''question_number'') = Some PNone \<and>
   field (repr sample_world) [(py ''question_number'', PNone), (py ''question_text'', PNone)]
      (py ''question_number'') = py ''None'' \<and>
   \<not> is_str (PInt 7) \<and> \<not> is_float (PInt 7) \<and>
   strip (py_str (repr sample_world) (PInt 7)) = py ''7'' \<and>
   map_of [(py ''question_number'', PInt 7),
           (py ''question_text'', PList [PInt 1, PStr (py ''a'')])]
      (py ''question_number'') = Some (PInt 7) \<and>
   clean_loop (repr sample_world)
      [PDict [(py ''question_number'', PInt 7),
              (py ''question_text'', PList [PInt 1, PStr (py ''a'')])]] [] =
     [[(py ''question_number'', py ''7''), (py ''question_text'', py ''[1, 'a']''),
       (py ''student_answer'', []), (py ''student_working'', [])]] \<and>
   loads sample_world (strip (py ''[{"question_number": null, "question_text": null}]'')) =
     Inr (PList [PDict [(py ''question_number'', PNone), (py ''question_text'', PNone)]]) \<and>
   parse_output sample_world (py ''[{"question_number": null, "question_text": null}]'') =
     (Inr [[(py ''question_number'', py ''None''), (py ''question_text'', py ''None''),
            (py ''student_answer'', []), (py ''student_working'', [])]], []) \<and>
   parse_output sample_world (py ''[{"question_number": 7, "question_text": [1, "a"]}]'') =
     (Inr [[(py ''question_number'', py ''7''), (py ''question_text'', py ''[1, 'a']''),
            (py ''student_answer'', []), (py ''student_working'', [])]], [])\<close>
proof -
  let ?d = "[(py ''question_number'', PNone), (py ''question_text'', PNone)]"
  let ?d' = "[(py ''question_number'', PInt 7),
              (py ''question_text'', PList [PInt 1, PStr (py ''a'')])]"
  let ?t = \<open>py ''[{"question_number": null, "question_text": null}]''\<close>
  let ?t' = \<open>py ''[{"question_number": 7, "question_text": [1, "a"]}]''\<close>
  let ?rp = "repr sample_world"
  have h1: "map_of ?d (py ''question_number'') = Some PNone" by simp
  have h2: "loads sample_world (strip ?t) = Inr (PList [PDict ?d])" by (simp add: eval_defs)
  have h3: "\<not> is_str (PInt 7) \<and> \<not> is_float (PInt 7)" by simp
  have h4: "map_of ?d' (py ''question_number'') = Some (PInt 7)" by simp
  have r: "record_of ?rp ?d' =
     [(py ''question_number'', py ''7''), (py ''question_text'', py ''[1, 'a']''),
       (py ''student_answer'', []), (py ''student_working'', [])]"
    by (simp add: eval_defs repr_defs)
  have l': "loads sample_world (strip ?t') = Inr (PList [PDict ?d'])" by (simp add: eval_defs)
  note inst = non_string_fields_coerced [where d = "?d" and k = "py ''question_number''"
      and v = PNone and rp = "?rp" and u = "PInt 7" and d' = "?d'" and u' = "PInt 7"
      and w = sample_world and output_text = "?t" and i = 7 and sg = False and m = 0 and e = 0]
  have i2: "map_of ?d (py ''question_number'') = Some PNone \<longrightarrow>
      field ?rp ?d (py ''question_number'') = py ''None''"
    using inst by (elim conjE)
  have i7: "py_str ?rp (PInt 7) = py ''7''"
    using inst by (elim conjE)
  have i13: "\<not> is_str (PInt 7) \<and> \<not> is_float (PInt 7) \<longrightarrow>
      py_str ?rp (PInt 7) \<noteq> [] \<and> strip (py_str ?rp (PInt 7)) = py_str ?rp (PInt 7)"
    using inst by (elim conjE)
  have i14: "(map_of ?d' (py ''question_number'') = Some (PInt 7) \<or>
     map_of ?d' (py ''question_text'') = Some (PInt 7)) \<and>
     \<not> is_str (PInt 7) \<and> \<not> is_float (PInt 7) \<longrightarrow>
      clean_loop ?rp [PDict ?d'] [] = [record_of ?rp ?d']"
    using inst by (elim conjE)
  have i15: "loads sample_world (strip ?t) = Inr (PList [PDict ?d]) \<longrightarrow>
    parse_output sample_world ?t =
      (Inr [[(py ''question_number'', py ''None''), (py ''question_text'', py ''None''),
             (py ''student_answer'', []), (py ''student_working'', [])]], [])"
    using inst by (elim conjE)
  from i2 h1 have c1: "field ?rp ?d (py ''question_number'') = py ''None''" by (rule mp)
  from i13 h3 have "strip (py_str ?rp (PInt 7)) = py_str ?rp (PInt 7)" by blast
  then have c2: "strip (py_str ?rp (PInt 7)) = py ''7''" by (simp only: i7)
  from h3 h4 have "(map_of ?d' (py ''question_number'') = Some (PInt 7) \<or>
     map_of ?d' (py ''question_text'') = Some (PInt 7)) \<and>
     \<not> is_str (PInt 7) \<and> \<not> is_float (PInt 7)" by blast
  with i14 have "clean_loop ?rp [PDict ?d'] [] = [record_of ?rp ?d']" by (rule mp)
  then have c3: "clean_loop ?rp [PDict ?d'] [] =
     [[(py ''question_number'', py ''7''), (py ''question_text'', py ''[1, 'a']''),
       (py ''student_answer'', []), (py ''student_working'', [])]]"
    unfolding r .
  from i15 h2 have c4: "parse_output sample_world ?t =
     (Inr [[(py ''question_number'', py ''None''), (py ''question_text'', py ''None''),
            (py ''student_answer'', []), (py ''student_working'', [])]], [])" by (rule mp)
  have c5: "parse_output sample_world ?t' =
     (Inr [[(py ''question_number'', py ''7''), (py ''question_text'', py ''[1, 'a']''),
            (py ''student_answer'', []), (py ''student_working'', [])]], [])"
    unfolding parse_output_def Let_def l' using c3 by simp
  from h3 have h3a: "\<not> is_str (PInt 7)" and h3b: "\<not> is_float (PInt 7)" by simp_all
  show ?thesis
    by (intro conjI) (fact h1 c1 h3a h3b c2 h4 c3 h2 c4 c5)+
qed

section \<open>Base64 decoding inverts encoding\<close>

lemma byte_eqI:
  fixes a b :: byte
  assumes "bit a 0 = bit b 0" "bit a 1 = bit b 1" "bit a 2 = bit b 2" "bit a 3 = bit b 3"
    "bit a 4 = bit b 4" "bit a 5 = bit b 5" "bit a 6 = bit b 6" "bit a 7 = bit b 7"
  shows "a = b"
proof (rule bit_word_eqI)
  fix i
  assume "i < LENGTH(8)"
  then have "i \<in> {0, 1, 2, 3, 4, 5, 6, 7}"
    by simp arith
  with assms show "bit a i = bit b i"
    by auto
qed

lemma byte_hi:
  "\<not> bit (a::byte) 8" "\<not> bit a 9" "\<not> bit a 10" "\<not> bit a 11" "\<not> bit a 12" "\<not> bit a 13"
  by (auto dest: bit_imp_le_length)

lemma masks: "(3::byte) = mask 2" "(15::byte) = mask 4" "(63::byte) = mask 6"
  by (simp_all add: mask_eq_exp_minus_1)

lemmas sextet_defs = sextet0_def sextet1_def sextet2_def sextet3_def masks

lemma join0: "push_bit 2 (sextet0 a) OR drop_bit 4 (sextet1 a b) = a"
  unfolding sextet_defs by (rule byte_eqI) (simp_all add: bit_simps byte_hi)

lemma join1: "push_bit 4 (sextet1 a b) OR drop_bit 2 (sextet2 b c) = b"
  unfolding sextet_defs by (rule byte_eqI) (simp_all add: bit_simps byte_hi)

lemma join2: "push_bit 6 (sextet2 b c) OR sextet3 c = c"
  unfolding sextet_defs by (rule byte_eqI) (simp_all add: bit_simps byte_hi)

lemma sextet_small:
  "take_bit 6 (sextet0 a) = sextet0 a"
  "take_bit 6 (sextet1 a b) = sextet1 a b"
  "take_bit 6 (sextet2 b c) = sextet2 b c"
  "take_bit 6 (sextet3 c) = sextet3 c"
  unfolding sextet_defs by (rule byte_eqI; simp add: bit_simps byte_hi)+

lemma b64_table:
  "list_all (\<lambda>n. b64_index (unat (b64_char (of_nat n))) = Some (of_nat n)) [0..<64]"
  by code_simp

lemma b64_index_char:
  assumes "take_bit 6 s = s"
  shows "b64_index (unat (b64_char s)) = Some s"
proof -
  have "take_bit 6 (unat s) < 2 ^ 6" by (rule take_bit_nat_less_exp)
  then have "unat (take_bit 6 s) < 64" by (simp add: unsigned_take_bit_eq)
  then have "unat s < 64" using assms by simp
  then have "unat s \<in> set [0..<64]" by simp
  with b64_table
  have "b64_index (unat (b64_char (of_nat (unat s)))) = Some (of_nat (unat s))"
    unfolding list_all_iff by blast
  then show ?thesis by simp
qed

lemma b64_char_not_pad: "take_bit 6 s = s \<Longrightarrow> unat (b64_char s) \<noteq> 61"
proof
  assume a: "take_bit 6 s = s" and b: "unat (b64_char s) = 61"
  have "b64_index (unat (b64_char s)) = Some s" using a by (rule b64_index_char)
  then show False unfolding b by (simp add: b64_index_def)
qed

lemma group3_enc:
  "b64_group3 (unat (b64_char (sextet0 a))) (unat (b64_char (sextet1 a b)))
      (unat (b64_char (sextet2 b c))) (unat (b64_char (sextet3 c))) = Some [a, b, c]"
  by (simp add: b64_group3_def b64_index_char sextet_small join0 join1 join2)

lemma group2_enc:
  "b64_group2 (unat (b64_char (sextet0 a))) (unat (b64_char (sextet1 a b)))
      (unat (b64_char (sextet2 b 0))) = Some [a, b]"
  by (simp add: b64_group2_def b64_index_char sextet_small join0 join1)

lemma group1_enc:
  "b64_group1 (unat (b64_char (sextet0 a))) (unat (b64_char (sextet1 a 0))) = Some [a]"
  by (simp add: b64_group1_def b64_index_char sextet_small join0)

lemma b64_roundtrip: "b64decode (decode_utf8 (b64encode bs)) = Some bs"
proof (induction bs rule: b64encode.induct)
  case (1 a b c rest)
  show ?case
  proof (cases "decode_utf8 (b64encode rest)")
    case Nil
    with 1 have r: "rest = []" by (simp add: decode_utf8_def)
    show ?thesis
      using Nil
      by (simp add: decode_utf8_def r group3_enc b64_char_not_pad sextet_small)
  next
    case (Cons x xs)
    show ?thesis
      using 1 Cons
      by (simp add: decode_utf8_def group3_enc)
  qed
next
  case (2 a b)
  show ?case by (simp add: decode_utf8_def group2_enc b64_char_not_pad sextet_small)
next
  case (3 a)
  show ?case by (simp add: decode_utf8_def group1_enc)
next
  case 4
  show ?case by (simp add: decode_utf8_def)
qed

section \<open>The image encoder\<close>

text \<open>
  C8: for a readable file, the encoder's result is the MIME tag followed by a base64
  payload, and decoding the payload gives back exactly the bytes of the file.
\<close>

theorem data_url_roundtrip:
  assumes "files w path = Some b"
  shows "\<exists>payload.
           image_to_data_url w path =
             (Inr (py ''data:image/jpeg;base64,'' @ payload), [OpenRead path]) \<and>
           b64decode payload = Some b"
  using assms by (simp add: image_to_data_url_def b64_roundtrip)

theorem data_url_roundtrip_witness:
  "files sample_world (py ''worksheet1.jpg'') = Some [0xFF, 0xD8, 0xFF, 0xE0] \<and>
   (\<exists>payload.
      image_to_data_url sample_world (py ''worksheet1.jpg'') =
        (Inr (py ''data:image/jpeg;base64,'' @ payload), [OpenRead (py ''worksheet1.jpg'')]) \<and>
      b64decode payload = Some [0xFF, 0xD8, 0xFF, 0xE0])"
proof -
  have h: "files sample_world (py ''worksheet1.jpg'') = Some [0xFF, 0xD8, 0xFF, 0xE0]"
    by (simp add: sample_world_def py_def)
  show ?thesis using h data_url_roundtrip [OF h] by simp
qed

text \<open>
  C10: the data URL of every readable file starts with the fixed tag
  \<open>data:image/jpeg;base64,\<close>, whatever the bytes of the file are.
\<close>

theorem data_url_tag_fixed:
  assumes "files w path = Some b"
  shows "\<exists>url. fst (image_to_data_url w path) = Inr url \<and>
           take 23 url = py ''data:image/jpeg;base64,''"
  using assms by (simp add: image_to_data_url_def py_def)

theorem data_url_tag_fixed_witness:
  "files sample_world (py ''scan.png'') = Some [0x89, 0x50, 0x4E, 0x47] \<and>
   (\<exists>url. fst (image_to_data_url sample_world (py ''scan.png'')) = Inr url \<and>
      take 23 url = py ''data:image/jpeg;base64,'')"
proof -
  have h: "files sample_world (py ''scan.png'') = Some [0x89, 0x50, 0x4E, 0x47]"
    by (simp add: sample_world_def py_def)
  show ?thesis using h data_url_tag_fixed [OF h] by simp
qed

section \<open>The credential\<close>

text \<open>
  C9: when the key is absent from the environment, the extraction fails with the
  \<open>RuntimeError\<close> of \<open>_client\<close> and has done nothing before: no file was opened and no
  request was sent.
\<close>

theorem missing_key_fails_before_io:
  assumes "environ w (py ''OPENAI_API_KEY'') = None"
  shows "extract_qa_from_image w image_path =
           (Inl (RuntimeError (py ''OPENAI_API_KEY not set'')), [])"
  using assms by (simp add: extract_qa_from_image_def client_def)

theorem missing_key_fails_before_io_witness:
  "environ (sample_world\<lparr>environ := Map.empty\<rparr>) (py ''OPENAI_API_KEY'') = None \<and>
   extract_qa_from_image (sample_world\<lparr>environ := Map.empty\<rparr>) (py ''worksheet1.jpg'') =
     (Inl (RuntimeError (py ''OPENAI_API_KEY not set'')), [])"
proof -
  have h: "environ (sample_world\<lparr>environ := Map.empty\<rparr>) (py ''OPENAI_API_KEY'') = None"
    by simp
  show ?thesis using h missing_key_fails_before_io [OF h] by simp
qed

end
